theory Spec2Isabelle
  imports Main "HOL-Library.Multiset"
begin

section \<open>The IAT experiment of \<^verbatim>\<open>iat/models.py\<close>\<close>

text \<open>
  The module holds a static configuration (\<^verbatim>\<open>STIMULI\<close>, \<^verbatim>\<open>BLOCKS\<close>), the hook
  \<^verbatim>\<open>Subsession.creating_session\<close> that expands the configuration into shuffled
  \<^verbatim>\<open>Trial\<close> objects, and the generator \<^verbatim>\<open>custom_export\<close>.

  Python strings are sequences of code points. Every code point of the module's stimulus
  words is below 256, so a word is a \<open>string\<close> with one \<open>char\<close> per code point
  (\<open>CHR 0xED\<close> is the i with acute accent, \<open>CHR 0xF1\<close> the n with tilde, \<open>CHR 0xE1\<close>
  the a with acute accent). Python integers are \<open>int\<close>.
\<close>

subsection \<open>Exceptions\<close>

datatype error =
    ValueError string
  | IndexError
  | KeyError string
  | AttributeError string

subsection \<open>Configuration of stimuli\<close>

type_synonym selector = "string \<times> string"

type_synonym stimuli_table = "string \<rightharpoonup> (string \<rightharpoonup> string list)"

text \<open>
  The word list of \<^verbatim>\<open>'positivas'\<close> reads \<^verbatim>\<open>'glorioso'^,'risa'\<close> in the source: a
  stray caret before the comma. The list is taken with the caret dropped, eight words.
\<close>

definition STIMULI :: stimuli_table where
  "STIMULI =
     [''atributos'' \<mapsto>
        [''positivas'' \<mapsto>
           [''alegr'' @ [CHR 0xED] @ ''a'', ''amor'', ''paz'', ''maravilloso'', ''placer'',
            ''glorioso'', ''risa'', ''feliz''],
         ''negativas'' \<mapsto>
           [''agon'' @ [CHR 0xED] @ ''a'', ''terrible'', ''horrible'', ''desagradable'',
            ''malvado'', ''mal'' @ [CHR 0xED] @ ''simo'', ''fallo'', ''dolor'']],
      ''conceptos'' \<mapsto>
        [''espa'' @ [CHR 0xF1] @ ''ol'' \<mapsto>
           [''espa'' @ [CHR 0xF1] @ ''ol'', ''murciano'', ''canario'',
            ''madrile'' @ [CHR 0xF1] @ ''o'', ''andaluz'', ''gallego''],
         ''inmigrante'' \<mapsto>
           [''inmigrante'', ''extranjero'', [CHR 0xE1] @ ''rabe'', ''africano'',
            ''asi'' @ [CHR 0xE1] @ ''tico'', ''latino'']]]"

subsection \<open>Configuration of practice and test blocks\<close>

text \<open>
  A block is a dict with the keys \<^verbatim>\<open>label\<close>, \<^verbatim>\<open>n\<close>, \<^verbatim>\<open>izquierda\<close>, \<^verbatim>\<open>derecha\<close> and,
  in some blocks only, \<^verbatim>\<open>is_practice\<close> and \<^verbatim>\<open>notice\<close>. The key \<^verbatim>\<open>n\<close> is the field
  \<open>block_n\<close>.
\<close>

record block_def =
  label :: string
  block_n :: int
  izquierda :: "selector list"
  derecha :: "selector list"
  is_practice :: "bool option"
  notice :: "string option"

definition BLOCKS :: "block_def list" where
  "BLOCKS =
     [\<lparr>label = ''Practice 1'', block_n = 10,
       izquierda = [(''conceptos'', ''espa'' @ [CHR 0xF1] @ ''ol'')],
       derecha = [(''conceptos'', ''inmigrante'')],
       is_practice = Some True, notice = None\<rparr>,
      \<lparr>label = ''Practice 2'', block_n = 10,
       izquierda = [(''atributos'', ''negativas'')],
       derecha = [(''atributos'', ''positivas'')],
       is_practice = Some True, notice = None\<rparr>,
      \<lparr>label = ''Test 1'', block_n = 20,
       izquierda = [(''atributos'', ''negativas''), (''conceptos'', ''espa'' @ [CHR 0xF1] @ ''ol'')],
       derecha = [(''atributos'', ''positivas''), (''conceptos'', ''inmigrante'')],
       is_practice = None, notice = None\<rparr>,
      \<lparr>label = ''Test 2'', block_n = 20,
       izquierda = [(''atributos'', ''negativas''), (''conceptos'', ''espa'' @ [CHR 0xF1] @ ''ol'')],
       derecha = [(''atributos'', ''positivas''), (''conceptos'', ''inmigrante'')],
       is_practice = None, notice = None\<rparr>,
      \<lparr>label = ''Practice 3 (reversed)'', block_n = 10,
       izquierda = [(''conceptos'', ''inmigrante'')],
       derecha = [(''conceptos'', ''espa'' @ [CHR 0xF1] @ ''ol'')],
       is_practice = Some True,
       notice = Some (''CUIDADO, las categor'' @ [CHR 0xED] @ ''as se han cambiado de sitio!'')\<rparr>,
      \<lparr>label = ''Test 3'', block_n = 20,
       izquierda = [(''atributos'', ''negativas''), (''conceptos'', ''inmigrante'')],
       derecha = [(''atributos'', ''positivas''), (''conceptos'', ''espa'' @ [CHR 0xF1] @ ''ol'')],
       is_practice = None, notice = None\<rparr>,
      \<lparr>label = ''Test 4'', block_n = 20,
       izquierda = [(''atributos'', ''negativas''), (''conceptos'', ''inmigrante'')],
       derecha = [(''atributos'', ''positivas''), (''conceptos'', ''espa'' @ [CHR 0xF1] @ ''ol'')],
       is_practice = None, notice = None\<rparr>]"

text \<open>\<^verbatim>\<open>Constants.num_rounds = len(BLOCKS)\<close>\<close>

definition num_rounds :: int where
  "num_rounds = int (length BLOCKS)"

subsection \<open>Players and trials\<close>

text \<open>
  Of a player the module reads \<^verbatim>\<open>round_number\<close>, \<^verbatim>\<open>session.code\<close> and
  \<^verbatim>\<open>participant.code\<close>. A \<^verbatim>\<open>Trial\<close> has eight data fields, each of them empty
  (\<open>None\<close>) until it is given a value, and the foreign key \<^verbatim>\<open>player\<close>.
\<close>

record Player =
  round_number :: int
  session_code :: string
  participant_code :: string

record Trial =
  block :: "int option"
  trial :: "int option"
  stimulus :: "string option"
  stimulus_class :: "string option"
  stimulus_level :: "string option"
  response_key :: "string option"
  response_correct :: "bool option"
  response_time_ms :: "int option"
  player :: Player

subsection \<open>Indexing and formatting as Python does them\<close>

text \<open>\<^verbatim>\<open>xs[i]\<close>: an index below zero counts from the end, an index out of range raises.\<close>

definition list_getitem :: "'a list \<Rightarrow> int \<Rightarrow> error + 'a" where
  "list_getitem xs i =
     (if 0 \<le> i \<and> i < int (length xs) then Inr (xs ! nat i)
      else if - int (length xs) \<le> i \<and> i < 0 then Inr (xs ! nat (int (length xs) + i))
      else Inl IndexError)"

text \<open>\<^verbatim>\<open>d[k]\<close> on a dict with string keys.\<close>

definition dict_getitem :: "(string \<rightharpoonup> 'v) \<Rightarrow> string \<Rightarrow> error + 'v" where
  "dict_getitem d k = (case d k of None \<Rightarrow> Inl (KeyError k) | Some v \<Rightarrow> Inr v)"

text \<open>\<^verbatim>\<open>'%d' % i\<close>: the decimal digits, after a minus sign when \<open>i\<close> is negative.\<close>

fun str_nat :: "nat \<Rightarrow> string" where
  "str_nat k =
     (if k < 10 then [''0123456789'' ! k]
      else str_nat (k div 10) @ [''0123456789'' ! (k mod 10)])"

declare str_nat.simps [simp del]

definition format_d :: "int \<Rightarrow> string" where
  "format_d i = (if i < 0 then ''-'' @ str_nat (nat (- i)) else str_nat (nat i))"

definition mismatch_message :: "int \<Rightarrow> int \<Rightarrow> string" where
  "mismatch_message len_stimuli n_def =
     ''the number of stimuli ('' @ format_d len_stimuli
       @ '') and the number of repetitions in the block definition (n=''
       @ format_d n_def @ '') do not match''"

subsection \<open>\<^verbatim>\<open>random.shuffle\<close>\<close>

text \<open>
  The generator of the \<^verbatim>\<open>random\<close> module is a sequence of raw draws that are still to
  come; \<^verbatim>\<open>randbelow(k)\<close> consumes one draw and returns a number below \<open>k\<close>. The
  library's \<^verbatim>\<open>shuffle\<close> walks \<open>i\<close> from \<open>len(x) - 1\<close> down to 1 and exchanges
  \<open>x[i]\<close> with \<open>x[randbelow(i + 1)]\<close>.
\<close>

type_synonym rng = "nat \<Rightarrow> nat"

definition randbelow :: "rng \<Rightarrow> nat \<Rightarrow> nat \<times> rng" where
  "randbelow g k = (g 0 mod k, \<lambda>i. g (Suc i))"

fun shuffle_from :: "nat \<Rightarrow> 'a list \<Rightarrow> rng \<Rightarrow> 'a list \<times> rng" where
  "shuffle_from 0 x g = (x, g)"
| "shuffle_from (Suc i) x g =
     (case randbelow g (Suc i + 1) of
        (j, g') \<Rightarrow> shuffle_from i (x[Suc i := x ! j, j := x ! Suc i]) g')"

definition shuffle :: "'a list \<Rightarrow> rng \<Rightarrow> 'a list \<times> rng" where
  "shuffle x g = shuffle_from (length x - 1) x g"

subsection \<open>\<^verbatim>\<open>Subsession.creating_session\<close>\<close>

text \<open>A stimulus definition is the tuple \<^verbatim>\<open>(side, stim_class, stim_lvl, stim)\<close>.\<close>

type_synonym stim_def = "string \<times> string \<times> string \<times> string"

text \<open>
  The body of the inner loop: the two dict lookups, then the \<^verbatim>\<open>zip\<close> of three
  constant lists with the words.
\<close>

fun selector_stimuli :: "stimuli_table \<Rightarrow> string \<Rightarrow> selector \<Rightarrow> error + stim_def list" where
  "selector_stimuli tab side (stim_class, stim_lvl) =
     (case dict_getitem tab stim_class of
        Inl e \<Rightarrow> Inl e
      | Inr levels \<Rightarrow>
          (case dict_getitem levels stim_lvl of
             Inl e \<Rightarrow> Inl e
           | Inr stim_vals \<Rightarrow>
               (let n_vals = length stim_vals
                in Inr (zip (replicate n_vals side)
                         (zip (replicate n_vals stim_class)
                           (zip (replicate n_vals stim_lvl) stim_vals))))))"

text \<open>The inner loop over the selectors of one side, extending \<^verbatim>\<open>stimuli\<close>.\<close>

fun extend_selectors ::
  "stimuli_table \<Rightarrow> string \<Rightarrow> selector list \<Rightarrow> stim_def list \<Rightarrow> error + stim_def list" where
  "extend_selectors tab side [] stimuli = Inr stimuli"
| "extend_selectors tab side (sel # sels) stimuli =
     (case selector_stimuli tab side sel of
        Inl e \<Rightarrow> Inl e
      | Inr new \<Rightarrow> extend_selectors tab side sels (stimuli @ new))"

text \<open>\<^verbatim>\<open>block_def[side]\<close> for the two sides the loop names.\<close>

definition block_side :: "block_def \<Rightarrow> string \<Rightarrow> selector list" where
  "block_side b side = (if side = ''izquierda'' then izquierda b else derecha b)"

text \<open>The outer loop over the sides.\<close>

fun extend_sides ::
  "stimuli_table \<Rightarrow> block_def \<Rightarrow> string list \<Rightarrow> stim_def list \<Rightarrow> error + stim_def list" where
  "extend_sides tab b [] stimuli = Inr stimuli"
| "extend_sides tab b (side # sides) stimuli =
     (case extend_selectors tab side (block_side b side) stimuli of
        Inl e \<Rightarrow> Inl e
      | Inr stimuli' \<Rightarrow> extend_sides tab b sides stimuli')"

definition build_stimuli :: "stimuli_table \<Rightarrow> block_def \<Rightarrow> error + stim_def list" where
  "build_stimuli tab b = extend_sides tab b [''izquierda'', ''derecha''] []"

text \<open>
  The loop that generates a \<^verbatim>\<open>Trial\<close> object for each stimulus; the response fields
  are not given to the constructor.
\<close>

definition new_trial :: "Player \<Rightarrow> nat \<times> stim_def \<Rightarrow> Trial" where
  "new_trial p = (\<lambda>(trial_i, (side, stim_class, stim_lvl, stim)).
     \<lparr>block = Some (round_number p),
      trial = Some (int trial_i + 1),
      stimulus = Some stim,
      stimulus_class = Some stim_class,
      stimulus_level = Some stim_lvl,
      response_key = None,
      response_correct = None,
      response_time_ms = None,
      player = p\<rparr>)"

definition make_trials :: "Player \<Rightarrow> stim_def list \<Rightarrow> Trial list" where
  "make_trials p stimuli = map (new_trial p) (enumerate 0 stimuli)"

text \<open>
  The body of the loop over the players: block lookup, stimuli, shuffle, the check of the
  count, and the new trials.
\<close>

definition player_trials ::
  "stimuli_table \<Rightarrow> block_def list \<Rightarrow> Player \<Rightarrow> rng \<Rightarrow> error + (Trial list \<times> rng)" where
  "player_trials tab blocks p g =
     (let block_num = round_number p - 1
      in case list_getitem blocks block_num of
           Inl e \<Rightarrow> Inl e
         | Inr b \<Rightarrow>
             (case build_stimuli tab b of
                Inl e \<Rightarrow> Inl e
              | Inr stimuli \<Rightarrow>
                  (case shuffle stimuli g of
                     (shuffled, g') \<Rightarrow>
                       if int (length shuffled) \<noteq> block_n b
                       then Inl (ValueError
                              (mismatch_message (int (length shuffled)) (block_n b)))
                       else Inr (make_trials p shuffled, g'))))"

fun players_loop ::
  "stimuli_table \<Rightarrow> block_def list \<Rightarrow> Player list \<Rightarrow> rng \<Rightarrow> Trial list \<Rightarrow> error + Trial list"
  where
  "players_loop tab blocks [] g trials = Inr trials"
| "players_loop tab blocks (p # ps) g trials =
     (case player_trials tab blocks p g of
        Inl e \<Rightarrow> Inl e
      | Inr (new, g') \<Rightarrow> players_loop tab blocks ps g' (trials @ new))"

text \<open>
  \<^verbatim>\<open>Trial.objects\<close> is the list of stored trials; \<^verbatim>\<open>bulk_create\<close> stores the new
  ones after those already there.
\<close>

definition bulk_create :: "Trial list \<Rightarrow> Trial list \<Rightarrow> Trial list" where
  "bulk_create trials objects = objects @ trials"

text \<open>
  The hook takes the configuration, the players of the subsession, the generator and the
  stored trials; it returns how it ended and the stored trials afterwards.
\<close>

definition creating_session ::
  "stimuli_table \<Rightarrow> block_def list \<Rightarrow> Player list \<Rightarrow> rng \<Rightarrow> Trial list
     \<Rightarrow> (error + unit) \<times> Trial list" where
  "creating_session tab blocks players g objects =
     (case players_loop tab blocks players g [] of
        Inl e \<Rightarrow> (Inl e, objects)
      | Inr trials \<Rightarrow> (Inr (), bulk_create trials objects))"

subsection \<open>\<^verbatim>\<open>custom_export\<close>\<close>

text \<open>
  The module defines \<^verbatim>\<open>custom_export\<close> itself when the import of the function of that
  name from \<^verbatim>\<open>otreeutils\<close> fails; this is the definition modelled here. The values of a
  row are Python values: \<^verbatim>\<open>None\<close>, booleans, integers and strings.
\<close>

datatype pyval = PyNone | PyBool bool | PyInt int | PyStr string

definition field_value :: "('a \<Rightarrow> pyval) \<Rightarrow> 'a option \<Rightarrow> pyval" where
  "field_value wrap v = (case v of None \<Rightarrow> PyNone | Some a \<Rightarrow> wrap a)"

text \<open>
  \<^verbatim>\<open>getattr(trial, f)\<close> for the data fields of a trial. The module asks for no other
  name; for one that is not a data field the model raises.
\<close>

definition getattr :: "Trial \<Rightarrow> string \<Rightarrow> error + pyval" where
  "getattr t f =
     (if f = ''block'' then Inr (field_value PyInt (block t))
      else if f = ''trial'' then Inr (field_value PyInt (trial t))
      else if f = ''stimulus'' then Inr (field_value PyStr (stimulus t))
      else if f = ''stimulus_class'' then Inr (field_value PyStr (stimulus_class t))
      else if f = ''stimulus_level'' then Inr (field_value PyStr (stimulus_level t))
      else if f = ''response_key'' then Inr (field_value PyStr (response_key t))
      else if f = ''response_correct'' then Inr (field_value PyBool (response_correct t))
      else if f = ''response_time_ms'' then Inr (field_value PyInt (response_time_ms t))
      else Inl (AttributeError f))"

text \<open>
  The list comprehension \<^verbatim>\<open>[sanitize_for_csv(getattr(trial, f)) for f in fields_to_export]\<close>.
  The function \<^verbatim>\<open>sanitize_for_csv\<close> is imported from the platform and is a parameter here.
\<close>

fun sanitized_fields :: "(pyval \<Rightarrow> pyval) \<Rightarrow> Trial \<Rightarrow> string list \<Rightarrow> error + pyval list" where
  "sanitized_fields san t [] = Inr []"
| "sanitized_fields san t (f # fs) =
     (case getattr t f of
        Inl e \<Rightarrow> Inl e
      | Inr v \<Rightarrow>
          (case sanitized_fields san t fs of
             Inl e \<Rightarrow> Inl e
           | Inr vs \<Rightarrow> Inr (san v # vs)))"

text \<open>The loop over \<^verbatim>\<open>Trial.objects.all()\<close>, one yielded row for each trial.\<close>

fun export_rows ::
  "(pyval \<Rightarrow> pyval) \<Rightarrow> string list \<Rightarrow> Trial list \<Rightarrow> error + pyval list list" where
  "export_rows san names [] = Inr []"
| "export_rows san names (t # ts) =
     (case sanitized_fields san t names of
        Inl e \<Rightarrow> Inl e
      | Inr vs \<Rightarrow>
          (case export_rows san names ts of
             Inl e \<Rightarrow> Inl e
           | Inr rows \<Rightarrow>
               Inr (([PyStr (session_code (player t)), PyStr (participant_code (player t))]
                      @ vs) # rows)))"

definition fields_to_export :: "string list" where
  "fields_to_export =
     [''block'', ''trial'', ''stimulus'', ''stimulus_class'', ''stimulus_level'',
      ''response_key'', ''response_correct'', ''response_time_ms'']"

text \<open>
  The generator is the list of the rows it yields, in order, or the exception that ends
  it. It is given the stored trials and returns them with its result. The argument
  \<^verbatim>\<open>players\<close> is not read.
\<close>

definition custom_export ::
  "(pyval \<Rightarrow> pyval) \<Rightarrow> Player list \<Rightarrow> Trial list
     \<Rightarrow> (error + pyval list list) \<times> Trial list" where
  "custom_export san players objects =
     (case export_rows san fields_to_export objects of
        Inl e \<Rightarrow> (Inl e, objects)
      | Inr rows \<Rightarrow>
          (Inr (map PyStr ([''session'', ''participant_code''] @ fields_to_export) # rows),
           objects))"

subsection \<open>The platform's \<^verbatim>\<open>sanitize_for_csv\<close>\<close>

text \<open>
  Modelled from the spec: \<^verbatim>\<open>sanitize_for_csv\<close> of \<^verbatim>\<open>otree.export\<close>, which the module
  imports and whose code is not among the sources. The specification describes it as
  escaping leading characters that spreadsheet programs would interpret as formulas and
  normalizing line endings, and shows a boolean and an integer passing unchanged. A leading
  \<open>=\<close>, \<open>+\<close>, \<open>-\<close> or \<open>@\<close> is escaped by an apostrophe put before it; a carriage
  return, alone or before a line feed, becomes one line feed.
\<close>

definition formula_leading :: "char \<Rightarrow> bool" where
  "formula_leading c = (c \<in> set ''=+-@'')"

definition escape_formula :: "string \<Rightarrow> string" where
  "escape_formula s =
     (case s of [] \<Rightarrow> [] | c # cs \<Rightarrow> if formula_leading c then CHR 0x27 # s else s)"

fun normalize_line_endings :: "string \<Rightarrow> string" where
  "normalize_line_endings [] = []"
| "normalize_line_endings [c] = (if c = CHR 0x0D then [CHR 0x0A] else [c])"
| "normalize_line_endings (c # d # cs) =
     (if c = CHR 0x0D \<and> d = CHR 0x0A then CHR 0x0A # normalize_line_endings cs
      else if c = CHR 0x0D then CHR 0x0A # normalize_line_endings (d # cs)
      else c # normalize_line_endings (d # cs))"

fun sanitize_for_csv :: "pyval \<Rightarrow> pyval" where
  "sanitize_for_csv (PyStr s) = PyStr (escape_formula (normalize_line_endings s))"
| "sanitize_for_csv v = v"

text \<open>Plain text: no line ending in it and no formula-leading character at its start.\<close>

definition plain_text :: "string \<Rightarrow> bool" where
  "plain_text s =
     (CHR 0x0D \<notin> set s \<and> CHR 0x0A \<notin> set s
      \<and> (case s of [] \<Rightarrow> True | c # cs \<Rightarrow> \<not> formula_leading c))"

section \<open>Notions used in the statements\<close>

subsection \<open>What the configuration selects\<close>

text \<open>
  \<open>selector_words\<close> is the word list \<^verbatim>\<open>STIMULI[category][level]\<close> of a selector, when both
  keys are there. The candidate tuples of a block are one tuple
  \<^verbatim>\<open>(side, category, level, word)\<close> for each word of each selector, the left side first;
  its triples are the same without the side. A block is defined in a table when the
  table has the word list of each of its selectors.
\<close>

definition selector_words :: "stimuli_table \<Rightarrow> selector \<Rightarrow> string list option" where
  "selector_words tab sel =
     (case tab (fst sel) of None \<Rightarrow> None | Some levels \<Rightarrow> levels (snd sel))"

definition selector_tuples :: "stimuli_table \<Rightarrow> string \<Rightarrow> selector \<Rightarrow> stim_def list" where
  "selector_tuples tab side sel =
     (case selector_words tab sel of
        None \<Rightarrow> []
      | Some ws \<Rightarrow> map (\<lambda>w. (side, fst sel, snd sel, w)) ws)"

definition candidate_tuples :: "stimuli_table \<Rightarrow> block_def \<Rightarrow> stim_def list" where
  "candidate_tuples tab b =
     concat (map (selector_tuples tab ''izquierda'') (izquierda b))
       @ concat (map (selector_tuples tab ''derecha'') (derecha b))"

definition selector_triples ::
  "stimuli_table \<Rightarrow> selector \<Rightarrow> (string \<times> string \<times> string) list" where
  "selector_triples tab sel =
     (case selector_words tab sel of
        None \<Rightarrow> []
      | Some ws \<Rightarrow> map (\<lambda>w. (fst sel, snd sel, w)) ws)"

definition block_triples :: "stimuli_table \<Rightarrow> block_def \<Rightarrow> (string \<times> string \<times> string) list" where
  "block_triples tab b = concat (map (selector_triples tab) (izquierda b @ derecha b))"

definition block_defined :: "stimuli_table \<Rightarrow> block_def \<Rightarrow> bool" where
  "block_defined tab b =
     list_all (\<lambda>sel. selector_words tab sel \<noteq> None) (izquierda b @ derecha b)"

text \<open>
  The two counts the hook compares for a player: the number of stimuli built for the
  block of the player's round, and the block's \<^verbatim>\<open>n\<close>.
\<close>

definition stimuli_counts ::
  "stimuli_table \<Rightarrow> block_def list \<Rightarrow> Player \<Rightarrow> (int \<times> int) option" where
  "stimuli_counts tab blocks p =
     (case list_getitem blocks (round_number p - 1) of
        Inl e \<Rightarrow> None
      | Inr b \<Rightarrow>
          (case build_stimuli tab b of
             Inl e \<Rightarrow> None
           | Inr stimuli \<Rightarrow> Some (int (length stimuli), block_n b)))"

text \<open>
  A player is well configured when the round number is one of the rounds of the block
  list and every block is defined in the table.
\<close>

definition well_configured :: "stimuli_table \<Rightarrow> block_def list \<Rightarrow> Player \<Rightarrow> bool" where
  "well_configured tab blocks p =
     (1 \<le> round_number p \<and> round_number p \<le> int (length blocks)
      \<and> list_all (block_defined tab) blocks)"

text \<open>The class, level and word of a trial, and a triple of words as a trial stores it.\<close>

definition trial_triple :: "Trial \<Rightarrow> string option \<times> string option \<times> string option" where
  "trial_triple t = (stimulus_class t, stimulus_level t, stimulus t)"

definition some_triple ::
  "string \<times> string \<times> string \<Rightarrow> string option \<times> string option \<times> string option" where
  "some_triple x = (Some (fst x), Some (fst (snd x)), Some (snd (snd x)))"

subsection \<open>What a row is made of\<close>

text \<open>
  The values of the eight data fields of a trial, in the order of \<^verbatim>\<open>fields_to_export\<close>,
  and the header the export yields first.
\<close>

definition trial_values :: "Trial \<Rightarrow> pyval list" where
  "trial_values t =
     [field_value PyInt (block t), field_value PyInt (trial t),
      field_value PyStr (stimulus t), field_value PyStr (stimulus_class t),
      field_value PyStr (stimulus_level t), field_value PyStr (response_key t),
      field_value PyBool (response_correct t), field_value PyInt (response_time_ms t)]"

definition header_row :: "pyval list" where
  "header_row =
     [PyStr ''session'', PyStr ''participant_code'', PyStr ''block'', PyStr ''trial'',
      PyStr ''stimulus'', PyStr ''stimulus_class'', PyStr ''stimulus_level'',
      PyStr ''response_key'', PyStr ''response_correct'', PyStr ''response_time_ms'']"

subsection \<open>Concrete inputs\<close>

definition example_rng :: rng where
  "example_rng i = 7 * i + 3"

definition example_player :: "int \<Rightarrow> Player" where
  "example_player r =
     \<lparr>round_number = r, session_code = ''k3x9p2aa'', participant_code = ''q7w1e5rt''\<rparr>"

text \<open>
  An answered trial as in the export scenario of the specification, and a player whose
  session code starts with a character that opens a formula.
\<close>

definition answered_trial :: "int \<Rightarrow> Trial" where
  "answered_trial i =
     \<lparr>block = Some 2, trial = Some i, stimulus = Some (''alegr'' @ [CHR 0xED] @ ''a''),
      stimulus_class = Some ''atributos'', stimulus_level = Some ''positivas'',
      response_key = Some ''E'', response_correct = Some True, response_time_ms = Some 812,
      player = example_player 2\<rparr>"

definition formula_player :: Player where
  "formula_player =
     \<lparr>round_number = 2, session_code = ''=1+1'', participant_code = ''q7w1e5rt''\<rparr>"

text \<open>The first block with its \<^verbatim>\<open>n\<close> set to the twelve stimuli it selects.\<close>

definition practice_1_of_12 :: block_def where
  "practice_1_of_12 = (BLOCKS ! 0)\<lparr>block_n := 12\<rparr>"

section \<open>The shuffle\<close>

lemma length_shuffle_from: "length (fst (shuffle_from i x g)) = length x"
  by (induction i arbitrary: x g) (simp_all add: randbelow_def)

lemma length_shuffle: "length (fst (shuffle x g)) = length x"
  by (simp add: shuffle_def length_shuffle_from)

lemma mset_shuffle_from: "i < length x \<Longrightarrow> mset (fst (shuffle_from i x g)) = mset x"
proof (induction i arbitrary: x g)
  case 0
  then show ?case by simp
next
  case (Suc i)
  let ?j = "g 0 mod (Suc i + 1)"
  let ?y = "x[Suc i := x ! ?j, ?j := x ! Suc i]"
  have "?j < Suc i + 1"
    by (rule mod_less_divisor) simp
  with Suc.prems have j: "?j < length x"
    by linarith
  have swap: "mset ?y = mset x"
    using j Suc.prems by (rule mset_swap)
  have "i < length ?y"
    using Suc.prems by simp
  then have "mset (fst (shuffle_from i ?y (\<lambda>k. g (Suc k)))) = mset ?y"
    by (rule Suc.IH)
  with swap show ?case
    by (simp add: randbelow_def)
qed

lemma mset_shuffle: "mset (fst (shuffle x g)) = mset x"
proof (cases x)
  case Nil
  then show ?thesis by (simp add: shuffle_def)
next
  case (Cons a as)
  then show ?thesis by (simp add: shuffle_def mset_shuffle_from)
qed

lemma shuffle_from_map:
  "i < length x \<Longrightarrow>
   shuffle_from i (map f x) g = (map f (fst (shuffle_from i x g)), snd (shuffle_from i x g))"
proof (induction i arbitrary: x g)
  case 0
  then show ?case by simp
next
  case (Suc i)
  let ?j = "g 0 mod (Suc i + 1)"
  let ?y = "x[Suc i := x ! ?j, ?j := x ! Suc i]"
  have "?j < Suc i + 1"
    by (rule mod_less_divisor) simp
  with Suc.prems have j: "?j < length x"
    by linarith
  have upd: "(map f x)[Suc i := map f x ! ?j, ?j := map f x ! Suc i] = map f ?y"
    using Suc.prems j by (simp add: map_update)
  have "i < length ?y"
    using Suc.prems by simp
  from Suc.IH [OF this, of "\<lambda>k. g (Suc k)"] upd show ?case
    by (simp add: randbelow_def)
qed

lemma shuffle_map: "fst (shuffle (map f x) g) = map f (fst (shuffle x g))"
proof (cases x)
  case Nil
  then show ?thesis by (simp add: shuffle_def)
next
  case (Cons a as)
  then have "length x - 1 < length x" by simp
  from shuffle_from_map [OF this, of f g] show ?thesis
    by (simp add: shuffle_def)
qed

lemma shuffle_positions:
  "fst (shuffle x g) = map ((!) x) (fst (shuffle [0..<length x] g))"
proof -
  have "fst (shuffle (map ((!) x) [0..<length x]) g) = map ((!) x) (fst (shuffle [0..<length x] g))"
    by (rule shuffle_map)
  then show ?thesis by (simp add: map_nth)
qed

lemma shuffle_positions_perm:
  "mset (fst (shuffle [0..<k] g)) = mset [0..<k]"
  by (rule mset_shuffle)

section \<open>Building the stimuli\<close>

lemma zip_replicate_same: "zip (replicate (length xs) a) xs = map (Pair a) xs"
  by (induction xs) simp_all


lemma selector_stimuli_Inr_iff:
  "selector_stimuli tab side sel = Inr new \<longleftrightarrow>
   selector_words tab sel \<noteq> None \<and> new = selector_tuples tab side sel"
  by (cases sel)
     (auto simp: selector_words_def selector_tuples_def dict_getitem_def zip_replicate_same
                 zip_map2 split: option.splits)

lemma selector_stimuli_Inl:
  "selector_stimuli tab side sel = Inl e \<Longrightarrow> selector_words tab sel = None \<and> (\<exists>k. e = KeyError k)"
  by (cases sel) (auto simp: selector_words_def dict_getitem_def Let_def split: option.splits)

lemma extend_selectors_Inr_iff:
  "extend_selectors tab side sels acc = Inr out \<longleftrightarrow>
   list_all (\<lambda>sel. selector_words tab sel \<noteq> None) sels
     \<and> out = acc @ concat (map (selector_tuples tab side) sels)"
proof (induction sels arbitrary: acc)
  case Nil
  show ?case by auto
next
  case (Cons sel sels)
  show ?case
  proof (cases "selector_stimuli tab side sel")
    case (Inl e)
    then show ?thesis
      using selector_stimuli_Inl [OF Inl] by simp
  next
    case (Inr new)
    then have "selector_words tab sel \<noteq> None" and "new = selector_tuples tab side sel"
      by (simp_all add: selector_stimuli_Inr_iff)
    with Inr show ?thesis
      using Cons.IH [of "acc @ new"] by simp
  qed
qed

lemma extend_selectors_Inl:
  "extend_selectors tab side sels acc = Inl e \<Longrightarrow> \<exists>k. e = KeyError k"
proof (induction sels arbitrary: acc)
  case Nil
  then show ?case by simp
next
  case (Cons sel sels)
  then show ?case
    by (auto split: sum.splits dest: selector_stimuli_Inl)
qed

lemma build_stimuli_Inr_iff:
  "build_stimuli tab b = Inr stimuli \<longleftrightarrow>
   block_defined tab b \<and> stimuli = candidate_tuples tab b"
proof (cases "extend_selectors tab ''izquierda'' (izquierda b) []")
  case (Inl e)
  then have "\<not> list_all (\<lambda>sel. selector_words tab sel \<noteq> None) (izquierda b)"
    using extend_selectors_Inr_iff [of tab "''izquierda''" "izquierda b" "[]"] by auto
  with Inl show ?thesis
    by (simp add: build_stimuli_def block_side_def block_defined_def)
next
  case (Inr left)
  then have l: "list_all (\<lambda>sel. selector_words tab sel \<noteq> None) (izquierda b)"
    and left: "left = concat (map (selector_tuples tab ''izquierda'') (izquierda b))"
    by (simp_all add: extend_selectors_Inr_iff)
  have "build_stimuli tab b = extend_selectors tab ''derecha'' (derecha b) left"
    using Inr by (simp add: build_stimuli_def block_side_def split: sum.splits)
  then show ?thesis
    using l left
    by (simp add: extend_selectors_Inr_iff block_defined_def candidate_tuples_def)
qed

lemma build_stimuli_Inl: "build_stimuli tab b = Inl e \<Longrightarrow> \<exists>k. e = KeyError k"
  by (auto simp: build_stimuli_def split: sum.splits dest: extend_selectors_Inl)

lemma build_stimuli_defined:
  "block_defined tab b \<Longrightarrow> build_stimuli tab b = Inr (candidate_tuples tab b)"
  by (simp add: build_stimuli_Inr_iff)


section \<open>The trials of one player\<close>

lemma length_make_trials: "length (make_trials p stimuli) = length stimuli"
  by (simp add: make_trials_def)

lemma nth_make_trials:
  "i < length stimuli \<Longrightarrow> make_trials p stimuli ! i = new_trial p (i, stimuli ! i)"
  by (simp add: make_trials_def nth_enumerate_eq)

lemma trial_triple_new_trial:
  "trial_triple (new_trial p (i, side, c, l, w)) = (Some c, Some l, Some w)"
  by (simp add: trial_triple_def new_trial_def)

lemma map_trial_triple_make_trials:
  "map trial_triple (make_trials p stimuli) = map (\<lambda>x. some_triple (snd x)) stimuli"
  by (rule nth_equalityI)
     (auto simp: length_make_trials nth_make_trials trial_triple_def new_trial_def some_triple_def
           split: prod.splits)

lemma map_stimulus_make_trials:
  "map stimulus (make_trials p stimuli) = map (\<lambda>x. Some (snd (snd (snd x)))) stimuli"
  by (rule nth_equalityI)
     (auto simp: length_make_trials nth_make_trials new_trial_def split: prod.splits)

lemma candidate_tuples_triples:
  "map snd (candidate_tuples tab b) = block_triples tab b"
proof -
  have "map snd (selector_tuples tab side sel) = selector_triples tab sel" for side sel
    by (simp add: selector_tuples_def selector_triples_def comp_def split: option.splits)
  then have "map snd (concat (map (selector_tuples tab side) sels))
      = concat (map (selector_triples tab) sels)" for side sels
    by (simp add: map_concat comp_def)
  then show ?thesis
    by (simp add: candidate_tuples_def block_triples_def)
qed

lemma list_getitem_round:
  "1 \<le> r \<Longrightarrow> r \<le> int (length xs) \<Longrightarrow> list_getitem xs (r - 1) = Inr (xs ! nat (r - 1))"
  by (simp add: list_getitem_def)

lemma list_getitem_mem: "list_getitem xs i = Inr x \<Longrightarrow> x \<in> set xs"
  by (auto simp: list_getitem_def split: if_splits)

lemma list_getitem_Inl: "list_getitem xs i = Inl e \<Longrightarrow> e = IndexError"
  by (auto simp: list_getitem_def split: if_splits)

lemma player_trials_eq:
  assumes "list_getitem blocks (round_number p - 1) = Inr b"
    and "build_stimuli tab b = Inr stimuli"
  shows "player_trials tab blocks p g =
     (if int (length stimuli) \<noteq> block_n b
      then Inl (ValueError (mismatch_message (int (length stimuli)) (block_n b)))
      else Inr (make_trials p (fst (shuffle stimuli g)), snd (shuffle stimuli g)))"
proof (cases "shuffle stimuli g")
  case (Pair shuffled g')
  then have "length shuffled = length stimuli"
    using length_shuffle [of stimuli g] by simp
  with assms Pair show ?thesis
    by (simp add: player_trials_def)
qed

lemma player_trials_Inl:
  assumes "player_trials tab blocks p g = Inl e"
  shows "e = IndexError \<or> (\<exists>k. e = KeyError k)
     \<or> (\<exists>a n. stimuli_counts tab blocks p = Some (a, n) \<and> a \<noteq> n
               \<and> e = ValueError (mismatch_message a n))"
proof (cases "list_getitem blocks (round_number p - 1)")
  case (Inl e')
  with assms show ?thesis
    by (auto simp: player_trials_def dest: list_getitem_Inl)
next
  case b: (Inr b)
  show ?thesis
  proof (cases "build_stimuli tab b")
    case (Inl e')
    with assms b show ?thesis
      by (auto simp: player_trials_def dest: build_stimuli_Inl)
  next
    case (Inr stimuli)
    with assms b show ?thesis
      by (auto simp: player_trials_eq [OF b Inr] stimuli_counts_def split: if_splits)
  qed
qed

lemma player_trials_Inr:
  assumes "player_trials tab blocks p g = Inr (ts, g')"
  shows "\<exists>b stimuli. list_getitem blocks (round_number p - 1) = Inr b
           \<and> build_stimuli tab b = Inr stimuli
           \<and> int (length stimuli) = block_n b
           \<and> ts = make_trials p (fst (shuffle stimuli g))
           \<and> g' = snd (shuffle stimuli g)"
proof (cases "list_getitem blocks (round_number p - 1)")
  case (Inl e')
  with assms show ?thesis
    by (simp add: player_trials_def)
next
  case b: (Inr b)
  show ?thesis
  proof (cases "build_stimuli tab b")
    case (Inl e')
    with assms b show ?thesis
      by (simp add: player_trials_def)
  next
    case (Inr stimuli)
    with assms b show ?thesis
      by (auto simp: player_trials_eq [OF b Inr] split: if_splits)
  qed
qed

lemma stimuli_counts_well_configured:
  assumes "well_configured tab blocks p"
  shows "\<exists>a n. stimuli_counts tab blocks p = Some (a, n)"
proof -
  let ?b = "blocks ! nat (round_number p - 1)"
  have b: "list_getitem blocks (round_number p - 1) = Inr ?b"
    using assms by (simp add: well_configured_def list_getitem_round)
  then have "?b \<in> set blocks"
    by (rule list_getitem_mem)
  with assms have "block_defined tab ?b"
    by (simp add: well_configured_def list_all_iff)
  then have "build_stimuli tab ?b = Inr (candidate_tuples tab ?b)"
    by (rule build_stimuli_defined)
  with b show ?thesis
    by (simp add: stimuli_counts_def)
qed

lemma player_trials_counts:
  assumes "stimuli_counts tab blocks p = Some (a, n)"
  shows "a \<noteq> n \<Longrightarrow> player_trials tab blocks p g = Inl (ValueError (mismatch_message a n))"
    and "a = n \<Longrightarrow> \<exists>ts g'. player_trials tab blocks p g = Inr (ts, g')"
  using assms
  by (auto simp: stimuli_counts_def player_trials_eq split: sum.splits)

lemma player_trials_well_configured:
  assumes "well_configured tab blocks p" and "player_trials tab blocks p g = Inl e"
  shows "\<exists>a n. stimuli_counts tab blocks p = Some (a, n) \<and> a \<noteq> n
               \<and> e = ValueError (mismatch_message a n)"
proof -
  from assms(1) obtain a n where c: "stimuli_counts tab blocks p = Some (a, n)"
    using stimuli_counts_well_configured by blast
  show ?thesis
  proof (cases "a = n")
    case True
    with assms(2) show ?thesis
      using player_trials_counts(2) [OF c, of g] by auto
  next
    case False
    with assms(2) c show ?thesis
      using player_trials_counts(1) [OF c, of g] by auto
  qed
qed

section \<open>The loop over the players\<close>

lemma players_loop_Inl:
  "players_loop tab blocks ps g acc = Inl e \<Longrightarrow>
   \<exists>p\<in>set ps. \<exists>g0. player_trials tab blocks p g0 = Inl e"
proof (induction ps arbitrary: g acc)
  case Nil
  then show ?case by simp
next
  case (Cons p ps)
  show ?case
  proof (cases "player_trials tab blocks p g")
    case (Inl e')
    with Cons.prems show ?thesis by auto
  next
    case (Inr r)
    with Cons.prems obtain new g' where "players_loop tab blocks ps g' (acc @ new) = Inl e"
      by (cases r) simp
    from Cons.IH [OF this] show ?thesis by auto
  qed
qed

lemma players_loop_mismatch:
  assumes "\<forall>p\<in>set ps. well_configured tab blocks p"
    and "\<exists>p\<in>set ps. \<exists>a n. stimuli_counts tab blocks p = Some (a, n) \<and> a \<noteq> n"
  shows "\<exists>msg. players_loop tab blocks ps g acc = Inl (ValueError msg)"
  using assms
proof (induction ps arbitrary: g acc)
  case Nil
  then show ?case by simp
next
  case (Cons p ps)
  from Cons.prems(1) obtain a n where c: "stimuli_counts tab blocks p = Some (a, n)"
    using stimuli_counts_well_configured [of tab blocks p] by auto
  show ?case
  proof (cases "a = n")
    case False
    then show ?thesis
      using player_trials_counts(1) [OF c] by simp
  next
    case True
    then obtain ts g' where r: "player_trials tab blocks p g = Inr (ts, g')"
      using player_trials_counts(2) [OF c] by blast
    from True c Cons.prems(2)
    have "\<exists>q\<in>set ps. \<exists>a n. stimuli_counts tab blocks q = Some (a, n) \<and> a \<noteq> n"
      by auto
    with Cons.prems(1) have "\<exists>msg. players_loop tab blocks ps g' (acc @ ts) = Inl (ValueError msg)"
      using Cons.IH by simp
    with r show ?thesis by simp
  qed
qed


lemma creating_session_Inl:
  assumes "\<forall>p\<in>set players. well_configured tab blocks p"
    and "fst (creating_session tab blocks players g objects) = Inl e"
  shows "\<exists>p\<in>set players. \<exists>a n. stimuli_counts tab blocks p = Some (a, n) \<and> a \<noteq> n
           \<and> e = ValueError (mismatch_message a n)"
proof -
  from assms(2) have "players_loop tab blocks players g [] = Inl e"
    by (simp add: creating_session_def split: sum.splits)
  from players_loop_Inl [OF this] obtain p g0
    where p: "p \<in> set players" and e: "player_trials tab blocks p g0 = Inl e"
    by blast
  from assms(1) p have "well_configured tab blocks p" by simp
  from player_trials_well_configured [OF this e] p show ?thesis by blast
qed

text \<open>
  When the hook returns, it has stored after the old trials one chunk of new trials for
  each player, in the order of the players: as many as the \<^verbatim>\<open>n\<close> of the player's
  block, numbered from 1 without a gap, each owned by that player.
\<close>

lemma map_trial_make_trials:
  "map trial (make_trials p stimuli) = map (\<lambda>k. Some (int k + 1)) [0..<length stimuli]"
  by (rule nth_equalityI)
     (auto simp: length_make_trials nth_make_trials new_trial_def split: prod.splits)

lemma player_make_trials: "t \<in> set (make_trials p stimuli) \<Longrightarrow> player t = p"
  by (auto simp: make_trials_def new_trial_def split: prod.splits)

lemma players_loop_Inr:
  "players_loop tab blocks ps g acc = Inr trials \<Longrightarrow>
   \<exists>chunks. trials = acc @ concat chunks
     \<and> list_all2 (\<lambda>p ch. \<exists>b. list_getitem blocks (round_number p - 1) = Inr b
                          \<and> int (length ch) = block_n b
                          \<and> map trial ch = map (\<lambda>k. Some (int k + 1)) [0..<length ch]
                          \<and> (\<forall>t\<in>set ch. player t = p)) ps chunks"
proof (induction ps arbitrary: g acc)
  case Nil
  then show ?case by simp
next
  case (Cons p ps)
  from Cons.prems obtain new g' where
    new: "player_trials tab blocks p g = Inr (new, g')"
    and rest: "players_loop tab blocks ps g' (acc @ new) = Inr trials"
    by (auto split: sum.splits)
  from player_trials_Inr [OF new] obtain b stimuli where
    b: "list_getitem blocks (round_number p - 1) = Inr b"
    and n: "int (length stimuli) = block_n b"
    and ts: "new = make_trials p (fst (shuffle stimuli g))"
    by blast
  have good: "\<exists>b. list_getitem blocks (round_number p - 1) = Inr b
      \<and> int (length new) = block_n b
      \<and> map trial new = map (\<lambda>k. Some (int k + 1)) [0..<length new]
      \<and> (\<forall>t\<in>set new. player t = p)"
    using b n
    by (auto simp: ts length_make_trials length_shuffle map_trial_make_trials
             dest: player_make_trials)
  from Cons.IH [OF rest] obtain chunks where
    "trials = (acc @ new) @ concat chunks"
    and "list_all2 (\<lambda>p ch. \<exists>b. list_getitem blocks (round_number p - 1) = Inr b
                          \<and> int (length ch) = block_n b
                          \<and> map trial ch = map (\<lambda>k. Some (int k + 1)) [0..<length ch]
                          \<and> (\<forall>t\<in>set ch. player t = p)) ps chunks"
    by blast
  with good show ?case
    by (intro exI [of _ "new # chunks"]) simp
qed

lemma creating_session_Inr:
  assumes "creating_session tab blocks players g objects = (Inr (), objects')"
  shows "\<exists>chunks. objects' = objects @ concat chunks
     \<and> list_all2 (\<lambda>p ch. \<exists>b. list_getitem blocks (round_number p - 1) = Inr b
                          \<and> int (length ch) = block_n b
                          \<and> map trial ch = map (\<lambda>k. Some (int k + 1)) [0..<length ch]
                          \<and> (\<forall>t\<in>set ch. player t = p)) players chunks"
proof -
  from assms obtain trials where
    "players_loop tab blocks players g [] = Inr trials" and "objects' = objects @ trials"
    by (auto simp: creating_session_def bulk_create_def split: sum.splits)
  with players_loop_Inr [of tab blocks players g "[]" trials] show ?thesis
    by auto
qed

section \<open>The shipped configuration\<close>

lemma BLOCKS_defined: "list_all (block_defined STIMULI) BLOCKS"
  by (simp add: BLOCKS_def STIMULI_def block_defined_def selector_words_def)

lemma length_BLOCKS: "length BLOCKS = 7"
  by (simp add: BLOCKS_def)

lemma stimuli_counts_round_1:
  "round_number p = 1 \<Longrightarrow> stimuli_counts STIMULI BLOCKS p = Some (12, 10)"
  by (simp add: stimuli_counts_def list_getitem_def BLOCKS_def STIMULI_def build_stimuli_def
                block_side_def dict_getitem_def)

lemma stimuli_counts_round_5:
  "round_number p = 5 \<Longrightarrow> stimuli_counts STIMULI BLOCKS p = Some (12, 10)"
  by (simp add: stimuli_counts_def list_getitem_def BLOCKS_def STIMULI_def build_stimuli_def
                block_side_def dict_getitem_def)

lemma mismatch_message_12_10:
  "mismatch_message 12 10 =
     ''the number of stimuli (12) and the number of repetitions in the block definition (n=10) do not match''"
  by (simp add: mismatch_message_def format_d_def str_nat.simps)

section \<open>Properties of the generation of trials\<close>

text \<open>
  C2. For every block of the shipped configuration the number of candidate tuples of its
  left and right selectors should equal the block's declared \<^verbatim>\<open>n\<close>. The source says so
  in the comment on the first block and checks it in \<^verbatim>\<open>creating_session\<close>. The shipped
  table and block list do not agree in any block: the stimuli built are 12, 16, 28, 28,
  12, 28, 28 and the declared counts are 10, 10, 20, 20, 10, 20, 20.
\<close>

theorem shipped_stimuli_counts:
  "map (\<lambda>b. (map_sum id length (build_stimuli STIMULI b), block_n b)) BLOCKS =
     [(Inr 12, 10), (Inr 16, 10), (Inr 28, 20), (Inr 28, 20),
      (Inr 12, 10), (Inr 28, 20), (Inr 28, 20)]"
  by (simp add: BLOCKS_def STIMULI_def build_stimuli_def block_side_def dict_getitem_def)

text \<open>
  C1. For every participant and round the hook should produce exactly \<^verbatim>\<open>n\<close> trials
  numbered 1 to \<^verbatim>\<open>n\<close>. With the shipped configuration a player of round 1 gets none:
  for every state of the generator the hook raises the mismatch error (12 stimuli
  against \<^verbatim>\<open>n=10\<close>) and the stored trials stay as they were. The iteration is not at
  fault (\<open>creating_session_Inr\<close>: whenever the hook returns, each player has got
  \<^verbatim>\<open>n\<close> trials numbered 1 to \<^verbatim>\<open>n\<close>); the counts of the shipped constants are.
\<close>

theorem shipped_round_1_raises:
  "creating_session STIMULI BLOCKS
     [\<lparr>round_number = 1, session_code = sc, participant_code = pc\<rparr>] g objects =
   (Inl (ValueError ''the number of stimuli (12) and the number of repetitions in the block definition (n=10) do not match''),
    objects)"
proof -
  let ?p = "\<lparr>round_number = 1, session_code = sc, participant_code = pc\<rparr>"
  have "stimuli_counts STIMULI BLOCKS ?p = Some (12, 10)"
    by (rule stimuli_counts_round_1) simp
  then have "player_trials STIMULI BLOCKS ?p g = Inl (ValueError (mismatch_message 12 10))"
    by (rule player_trials_counts(1)) simp
  then show ?thesis
    by (simp add: creating_session_def mismatch_message_12_10)
qed

text \<open>
  C3, as the claim states it, has the error name the offending round. The message is
  built from the two counts alone: a player of round 1 and a player of round 5 raise the
  very same error.
\<close>

theorem error_same_in_rounds_1_and_5:
  "fst (creating_session STIMULI BLOCKS [example_player 1] example_rng []) =
     Inl (ValueError ''the number of stimuli (12) and the number of repetitions in the block definition (n=10) do not match'')
   \<and> fst (creating_session STIMULI BLOCKS [example_player 5] example_rng []) =
     Inl (ValueError ''the number of stimuli (12) and the number of repetitions in the block definition (n=10) do not match'')"
proof -
  have "stimuli_counts STIMULI BLOCKS (example_player 1) = Some (12, 10)"
    by (rule stimuli_counts_round_1) (simp add: example_player_def)
  then have 1: "player_trials STIMULI BLOCKS (example_player 1) example_rng
      = Inl (ValueError (mismatch_message 12 10))"
    by (rule player_trials_counts(1)) simp
  have "stimuli_counts STIMULI BLOCKS (example_player 5) = Some (12, 10)"
    by (rule stimuli_counts_round_5) (simp add: example_player_def)
  then have 5: "player_trials STIMULI BLOCKS (example_player 5) example_rng
      = Inl (ValueError (mismatch_message 12 10))"
    by (rule player_trials_counts(1)) simp
  show ?thesis
    using 1 5 by (simp add: creating_session_def mismatch_message_12_10)
qed

text \<open>
  C3, amended. For well configured players the hook raises the mismatch error if and only
  if the two counts differ for some player; every error it raises is that error, with the
  message formatted from the number of stimuli and the declared \<^verbatim>\<open>n\<close> of such a player;
  and when it raises, the stored trials are those from before: \<^verbatim>\<open>bulk_create\<close> was not
  reached.
\<close>

theorem creating_session_mismatch_error:
  assumes "\<forall>p\<in>set players. well_configured tab blocks p"
  shows "((\<exists>msg. fst (creating_session tab blocks players g objects) = Inl (ValueError msg))
            \<longleftrightarrow> (\<exists>p\<in>set players. \<exists>a n. stimuli_counts tab blocks p = Some (a, n) \<and> a \<noteq> n))
       \<and> (\<forall>e. fst (creating_session tab blocks players g objects) = Inl e \<longrightarrow>
             snd (creating_session tab blocks players g objects) = objects
             \<and> (\<exists>p\<in>set players. \<exists>a n. stimuli_counts tab blocks p = Some (a, n) \<and> a \<noteq> n
                   \<and> e = ValueError (mismatch_message a n)))"
proof -
  let ?loop = "players_loop tab blocks players g []"
  have err: "\<exists>p\<in>set players. \<exists>a n. stimuli_counts tab blocks p = Some (a, n) \<and> a \<noteq> n
                 \<and> e = ValueError (mismatch_message a n)"
    if "fst (creating_session tab blocks players g objects) = Inl e" for e
    using assms that by (rule creating_session_Inl)
  have unchanged: "snd (creating_session tab blocks players g objects) = objects"
    if "fst (creating_session tab blocks players g objects) = Inl e" for e
    using that by (simp add: creating_session_def split: sum.splits)
  have raised: "\<exists>msg. fst (creating_session tab blocks players g objects) = Inl (ValueError msg)"
    if "\<exists>p\<in>set players. \<exists>a n. stimuli_counts tab blocks p = Some (a, n) \<and> a \<noteq> n"
  proof -
    from assms that obtain msg where "?loop = Inl (ValueError msg)"
      using players_loop_mismatch by blast
    then show ?thesis by (simp add: creating_session_def)
  qed
  show ?thesis
    using err unchanged raised by blast
qed

theorem creating_session_mismatch_error_witness:
  "well_configured STIMULI BLOCKS (example_player 1)
   \<and> stimuli_counts STIMULI BLOCKS (example_player 1) = Some (12, 10)
   \<and> (\<exists>msg. fst (creating_session STIMULI BLOCKS [example_player 1] example_rng [])
               = Inl (ValueError msg))
   \<and> snd (creating_session STIMULI BLOCKS [example_player 1] example_rng []) = []"
proof -
  have wc: "\<forall>p\<in>set [example_player 1]. well_configured STIMULI BLOCKS p"
    by (simp add: well_configured_def BLOCKS_defined length_BLOCKS example_player_def)
  have c: "stimuli_counts STIMULI BLOCKS (example_player 1) = Some (12, 10)"
    by (rule stimuli_counts_round_1) (simp add: example_player_def)
  from creating_session_mismatch_error [OF wc, of example_rng "[]"] wc c
  show ?thesis by auto
qed

text \<open>
  C9. \<^verbatim>\<open>num_rounds\<close> is the length of \<^verbatim>\<open>BLOCKS\<close>, so for players whose round numbers
  lie between 1 and \<^verbatim>\<open>num_rounds\<close> the lookup \<^verbatim>\<open>BLOCKS[round_number - 1]\<close> is in range
  and returns the block at that position; and as every selector of the shipped blocks is
  in the shipped table, the only error the hook raises is the mismatch error.
\<close>

theorem block_lookup_in_range:
  assumes "\<forall>p\<in>set players. 1 \<le> round_number p \<and> round_number p \<le> num_rounds"
  shows "(\<forall>p\<in>set players. nat (round_number p - 1) < length BLOCKS
            \<and> list_getitem BLOCKS (round_number p - 1) = Inr (BLOCKS ! nat (round_number p - 1)))
       \<and> (\<forall>e. fst (creating_session STIMULI BLOCKS players g objects) = Inl e \<longrightarrow>
             (\<exists>msg. e = ValueError msg))"
proof -
  have wc: "\<forall>p\<in>set players. well_configured STIMULI BLOCKS p"
    using assms by (simp add: well_configured_def BLOCKS_defined num_rounds_def)
  have "\<exists>msg. e = ValueError msg"
    if "fst (creating_session STIMULI BLOCKS players g objects) = Inl e" for e
    using creating_session_Inl [OF wc that] by blast
  moreover have "nat (round_number p - 1) < length BLOCKS
      \<and> list_getitem BLOCKS (round_number p - 1) = Inr (BLOCKS ! nat (round_number p - 1))"
    if "p \<in> set players" for p
  proof -
    from assms that have "1 \<le> round_number p" and "round_number p \<le> int (length BLOCKS)"
      by (simp_all add: num_rounds_def)
    then show ?thesis
      by (simp add: list_getitem_round)
  qed
  ultimately show ?thesis by blast
qed

theorem block_lookup_in_range_witness:
  "1 \<le> round_number (example_player 1) \<and> round_number (example_player 1) \<le> num_rounds
   \<and> 1 \<le> round_number (example_player 7) \<and> round_number (example_player 7) \<le> num_rounds
   \<and> list_getitem BLOCKS (round_number (example_player 7) - 1) = Inr (BLOCKS ! 6)
   \<and> (\<exists>msg. fst (creating_session STIMULI BLOCKS [example_player 1, example_player 7]
                 example_rng []) = Inl (ValueError msg))"
proof -
  let ?players = "[example_player 1, example_player 7]"
  have h: "\<forall>p\<in>set ?players. 1 \<le> round_number p \<and> round_number p \<le> num_rounds"
    by (simp add: example_player_def num_rounds_def length_BLOCKS)
  have "stimuli_counts STIMULI BLOCKS (example_player 1) = Some (12, 10)"
    by (rule stimuli_counts_round_1) (simp add: example_player_def)
  then have "\<exists>e. player_trials STIMULI BLOCKS (example_player 1) example_rng = Inl e"
    using player_trials_counts(1) by fastforce
  then obtain e where e: "fst (creating_session STIMULI BLOCKS ?players example_rng []) = Inl e"
    by (auto simp: creating_session_def)
  from block_lookup_in_range [OF h, of example_rng "[]"] e
  have "\<exists>msg. e = ValueError msg"
    and "list_getitem BLOCKS (round_number (example_player 7) - 1)
           = Inr (BLOCKS ! nat (round_number (example_player 7) - 1))"
    by simp_all
  with e h show ?thesis
    by (auto simp: example_player_def)
qed

section \<open>A block whose counts agree\<close>

lemma shuffle_12: "fst (shuffle [0..<12] example_rng) = [4, 1, 0, 5, 2, 8, 11, 9, 6, 7, 10, 3]"
  by code_simp

lemma selector_tuples_mem:
  "x \<in> set (selector_tuples tab side sel) \<Longrightarrow>
   \<exists>ws w. selector_words tab sel = Some ws \<and> w \<in> set ws \<and> x = (side, fst sel, snd sel, w)"
  by (cases "selector_words tab sel") (auto simp: selector_tuples_def)

lemma candidate_tuples_mem:
  assumes "x \<in> set (candidate_tuples tab b)"
  shows "\<exists>side sel ws w. x = (side, fst sel, snd sel, w) \<and> sel \<in> set (izquierda b @ derecha b)
      \<and> selector_words tab sel = Some ws \<and> w \<in> set ws"
proof -
  from assms obtain side sel
    where sel: "sel \<in> set (izquierda b @ derecha b)" and x: "x \<in> set (selector_tuples tab side sel)"
    by (auto simp: candidate_tuples_def)
  from selector_tuples_mem [OF x] sel show ?thesis by blast
qed

lemma positions_unique:
  assumes "mset perm = mset [0..<k]" and "j < k"
  shows "\<exists>!i. i < k \<and> perm ! i = j"
proof -
  from assms(1) have len: "length perm = k"
    using mset_eq_length by fastforce
  from assms(1) have "set perm = {0..<k}"
    using mset_eq_setD by fastforce
  with assms(2) have "j \<in> set perm" by simp
  then obtain i where i: "i < length perm" "perm ! i = j"
    by (auto simp: in_set_conv_nth)
  have "distinct perm"
    using assms(1) by (metis distinct_upt mset_eq_imp_distinct_iff)
  then have "i' = i" if "i' < k" "perm ! i' = j" for i'
    using that i len nth_eq_iff_index_eq [of perm i' i] by simp
  with i len show ?thesis by auto
qed


lemma practice_lookup:
  "list_getitem [practice_1_of_12] (round_number (example_player 1) - 1) = Inr practice_1_of_12"
  by (simp add: list_getitem_def example_player_def)

lemma practice_defined: "block_defined STIMULI practice_1_of_12"
  by (simp add: practice_1_of_12_def BLOCKS_def STIMULI_def block_defined_def selector_words_def)

lemma practice_stimuli:
  "build_stimuli STIMULI practice_1_of_12 = Inr (candidate_tuples STIMULI practice_1_of_12)"
  using practice_defined by (rule build_stimuli_defined)

lemma practice_candidates:
  "candidate_tuples STIMULI practice_1_of_12 =
     [(''izquierda'', ''conceptos'', ''espa'' @ [CHR 0xF1] @ ''ol'', ''espa'' @ [CHR 0xF1] @ ''ol''),
      (''izquierda'', ''conceptos'', ''espa'' @ [CHR 0xF1] @ ''ol'', ''murciano''),
      (''izquierda'', ''conceptos'', ''espa'' @ [CHR 0xF1] @ ''ol'', ''canario''),
      (''izquierda'', ''conceptos'', ''espa'' @ [CHR 0xF1] @ ''ol'', ''madrile'' @ [CHR 0xF1] @ ''o''),
      (''izquierda'', ''conceptos'', ''espa'' @ [CHR 0xF1] @ ''ol'', ''andaluz''),
      (''izquierda'', ''conceptos'', ''espa'' @ [CHR 0xF1] @ ''ol'', ''gallego''),
      (''derecha'', ''conceptos'', ''inmigrante'', ''inmigrante''),
      (''derecha'', ''conceptos'', ''inmigrante'', ''extranjero''),
      (''derecha'', ''conceptos'', ''inmigrante'', [CHR 0xE1] @ ''rabe''),
      (''derecha'', ''conceptos'', ''inmigrante'', ''africano''),
      (''derecha'', ''conceptos'', ''inmigrante'', ''asi'' @ [CHR 0xE1] @ ''tico''),
      (''derecha'', ''conceptos'', ''inmigrante'', ''latino'')]"
  by (simp add: candidate_tuples_def selector_tuples_def selector_words_def practice_1_of_12_def
                BLOCKS_def STIMULI_def)

lemma practice_block_n: "block_n practice_1_of_12 = 12"
  by (simp add: practice_1_of_12_def)

lemma practice_trials:
  "player_trials STIMULI [practice_1_of_12] (example_player 1) example_rng =
     Inr (make_trials (example_player 1)
            (fst (shuffle (candidate_tuples STIMULI practice_1_of_12) example_rng)),
          snd (shuffle (candidate_tuples STIMULI practice_1_of_12) example_rng))"
proof -
  have "int (length (candidate_tuples STIMULI practice_1_of_12)) = block_n practice_1_of_12"
    by (simp add: practice_candidates practice_block_n)
  then show ?thesis
    by (simp add: player_trials_eq [OF practice_lookup practice_stimuli])
qed

section \<open>Properties of the trials that are built\<close>

text \<open>
  C7. The trial made from the element at the 1-based position \<open>i\<close> of the list handed to
  the loop that creates the trials has \<^verbatim>\<open>trial = i\<close>, the word, class and level of the
  tuple, \<^verbatim>\<open>block\<close> equal to the player's round number, the player as its owner, and no
  value in any of the three response fields; there is one trial for each element.
\<close>

theorem make_trials_fields:
  assumes "1 \<le> i" and "i \<le> length stimuli"
    and "stimuli ! (i - 1) = (side, stim_class, stim_lvl, stim)"
  shows "length (make_trials p stimuli) = length stimuli
       \<and> make_trials p stimuli ! (i - 1) =
           \<lparr>block = Some (round_number p), trial = Some (int i), stimulus = Some stim,
            stimulus_class = Some stim_class, stimulus_level = Some stim_lvl,
            response_key = None, response_correct = None, response_time_ms = None,
            player = p\<rparr>"
proof -
  from assms(1,2) have "i - 1 < length stimuli" by simp
  then have "make_trials p stimuli ! (i - 1) = new_trial p (i - 1, stimuli ! (i - 1))"
    by (rule nth_make_trials)
  with assms show ?thesis
    by (simp add: length_make_trials new_trial_def)
qed

theorem make_trials_fields_witness:
  "(1::nat) \<le> 2
   \<and> 2 \<le> length [(''derecha'', ''atributos'', ''positivas'', ''amor''),
                   (''izquierda'', ''atributos'', ''negativas'', ''dolor'')]
   \<and> make_trials (example_player 3)
        [(''derecha'', ''atributos'', ''positivas'', ''amor''),
         (''izquierda'', ''atributos'', ''negativas'', ''dolor'')] ! 1 =
       \<lparr>block = Some 3, trial = Some 2, stimulus = Some ''dolor'',
        stimulus_class = Some ''atributos'', stimulus_level = Some ''negativas'',
        response_key = None, response_correct = None, response_time_ms = None,
        player = example_player 3\<rparr>"
  using make_trials_fields [of 2 "[(''derecha'', ''atributos'', ''positivas'', ''amor''),
         (''izquierda'', ''atributos'', ''negativas'', ''dolor'')]"
       "''izquierda''" "''atributos''" "''negativas''" "''dolor''" "example_player 3"]
  by (simp add: example_player_def)

text \<open>
  C4. For a player whose block is found and whose stimuli are built, and for every state
  of the generator, the shuffle returns a list with the same multiset of tuples; the
  trials made from the shuffled list carry, as a multiset, exactly the (class, level, word)
  triples of the block's left and right selectors, and exactly their words; and these are
  the trials the hook adds for the player whenever it adds any.
\<close>

theorem shuffle_keeps_multiset:
  assumes "list_getitem blocks (round_number p - 1) = Inr b"
    and "build_stimuli tab b = Inr stimuli"
  shows "mset (fst (shuffle stimuli g)) = mset stimuli
       \<and> mset (map trial_triple (make_trials p (fst (shuffle stimuli g))))
           = mset (map some_triple (block_triples tab b))
       \<and> mset (map stimulus (make_trials p (fst (shuffle stimuli g))))
           = mset (map (\<lambda>x. Some (snd (snd x))) (block_triples tab b))
       \<and> (\<forall>ts g'. player_trials tab blocks p g = Inr (ts, g') \<longrightarrow>
             ts = make_trials p (fst (shuffle stimuli g)))"
proof -
  let ?ts = "make_trials p (fst (shuffle stimuli g))"
  have stimuli: "stimuli = candidate_tuples tab b"
    using assms(2) by (simp add: build_stimuli_Inr_iff)
  have m: "mset (fst (shuffle stimuli g)) = mset stimuli"
    by (rule mset_shuffle)
  have "mset (map trial_triple ?ts)
      = image_mset (\<lambda>x. some_triple (snd x)) (mset (fst (shuffle stimuli g)))"
    by (simp add: map_trial_triple_make_trials)
  also have "\<dots> = mset (map some_triple (map snd stimuli))"
    by (simp add: m comp_def)
  finally have t: "mset (map trial_triple ?ts) = mset (map some_triple (block_triples tab b))"
    by (simp add: stimuli candidate_tuples_triples)
  have "mset (map stimulus ?ts)
      = image_mset (\<lambda>x. Some (snd (snd (snd x)))) (mset (fst (shuffle stimuli g)))"
    by (simp add: map_stimulus_make_trials)
  also have "\<dots> = mset (map (\<lambda>x. Some (snd (snd x))) (map snd stimuli))"
    by (simp add: m comp_def)
  finally have w: "mset (map stimulus ?ts)
      = mset (map (\<lambda>x. Some (snd (snd x))) (block_triples tab b))"
    by (simp add: stimuli candidate_tuples_triples)
  have "ts = ?ts" if "player_trials tab blocks p g = Inr (ts, g')" for ts g'
    using player_trials_Inr [OF that] assms by auto
  with m t w show ?thesis by blast
qed

theorem shuffle_keeps_multiset_witness:
  "list_getitem [practice_1_of_12] (round_number (example_player 1) - 1) = Inr practice_1_of_12
   \<and> build_stimuli STIMULI practice_1_of_12 = Inr (candidate_tuples STIMULI practice_1_of_12)
   \<and> length (candidate_tuples STIMULI practice_1_of_12) = 12
   \<and> (\<exists>ts g'. player_trials STIMULI [practice_1_of_12] (example_player 1) example_rng = Inr (ts, g')
        \<and> mset (map trial_triple ts)
            = mset (map some_triple (block_triples STIMULI practice_1_of_12))
        \<and> mset (map stimulus ts)
            = mset (map (\<lambda>x. Some (snd (snd x))) (block_triples STIMULI practice_1_of_12)))"
  using shuffle_keeps_multiset [OF practice_lookup practice_stimuli, of example_rng]
    practice_lookup practice_stimuli practice_trials
  by (simp add: practice_candidates)

text \<open>
  C10. For a player whose block is found and whose stimuli are built, the stimuli are the
  candidate tuples of the block: one for each word of each selector. Every trial made from
  the shuffled list has a (class, level) pair that is a left or right selector of the
  block and a word of that selector's word list. The positions the shuffle assigns form a
  permutation: each position of the candidate list is the origin of exactly one position
  of the trial list, and the trial there is the one made from that candidate. These are
  the trials the hook adds for the player whenever it adds any.
\<close>

theorem trials_from_selectors:
  assumes "list_getitem blocks (round_number p - 1) = Inr b"
    and "build_stimuli tab b = Inr stimuli"
  shows "stimuli = candidate_tuples tab b
       \<and> (\<forall>t\<in>set (make_trials p (fst (shuffle stimuli g))).
             \<exists>c l w ws. trial_triple t = (Some c, Some l, Some w)
                \<and> (c, l) \<in> set (izquierda b @ derecha b)
                \<and> selector_words tab (c, l) = Some ws \<and> w \<in> set ws)
       \<and> length (make_trials p (fst (shuffle stimuli g))) = length stimuli
       \<and> (\<forall>k<length stimuli.
             \<exists>!i. i < length stimuli \<and> fst (shuffle [0..<length stimuli] g) ! i = k)
       \<and> (\<forall>i<length stimuli.
             make_trials p (fst (shuffle stimuli g)) ! i
               = new_trial p (i, stimuli ! (fst (shuffle [0..<length stimuli] g) ! i)))
       \<and> (\<forall>ts g'. player_trials tab blocks p g = Inr (ts, g') \<longrightarrow>
             ts = make_trials p (fst (shuffle stimuli g)))"
proof -
  let ?shuffled = "fst (shuffle stimuli g)"
  let ?ts = "make_trials p ?shuffled"
  let ?perm = "fst (shuffle [0..<length stimuli] g)"
  have stimuli: "stimuli = candidate_tuples tab b"
    using assms(2) by (simp add: build_stimuli_Inr_iff)
  have len: "length ?shuffled = length stimuli"
    by (rule length_shuffle)
  have members: "\<exists>c l w ws. trial_triple t = (Some c, Some l, Some w)
        \<and> (c, l) \<in> set (izquierda b @ derecha b)
        \<and> selector_words tab (c, l) = Some ws \<and> w \<in> set ws"
    if "t \<in> set ?ts" for t
  proof -
    from that obtain i where i: "i < length ?shuffled" and t: "t = new_trial p (i, ?shuffled ! i)"
      by (auto simp: in_set_conv_nth length_make_trials nth_make_trials)
    from i have "?shuffled ! i \<in> set ?shuffled" by simp
    also have "set ?shuffled = set stimuli"
      using mset_shuffle [of stimuli g] by (rule mset_eq_setD)
    finally have "?shuffled ! i \<in> set (candidate_tuples tab b)"
      by (simp add: stimuli)
    from candidate_tuples_mem [OF this] obtain side sel ws w
      where x: "?shuffled ! i = (side, fst sel, snd sel, w)"
        and sel: "sel \<in> set (izquierda b @ derecha b)"
        and ws: "selector_words tab sel = Some ws" "w \<in> set ws"
      by blast
    from t x have "trial_triple t = (Some (fst sel), Some (snd sel), Some w)"
      by (simp add: trial_triple_new_trial)
    with sel ws show ?thesis
      by (metis prod.collapse)
  qed
  have perm: "mset ?perm = mset [0..<length stimuli]"
    by (rule mset_shuffle)
  have unique: "\<exists>!i. i < length stimuli \<and> ?perm ! i = k" if "k < length stimuli" for k
    using perm that by (rule positions_unique)
  have origin: "?ts ! i = new_trial p (i, stimuli ! (?perm ! i))" if "i < length stimuli" for i
  proof -
    have "length ?perm = length stimuli"
      using length_shuffle [of "[0..<length stimuli]" g] by simp
    with that have "?shuffled ! i = stimuli ! (?perm ! i)"
      by (simp add: shuffle_positions [of stimuli g])
    with that len show ?thesis
      by (simp add: nth_make_trials)
  qed
  have "ts = ?ts" if "player_trials tab blocks p g = Inr (ts, g')" for ts g'
    using player_trials_Inr [OF that] assms by auto
  then have hook: "\<forall>ts g'. player_trials tab blocks p g = Inr (ts, g') \<longrightarrow> ts = ?ts"
    by blast
  have count: "length ?ts = length stimuli"
    by (simp add: length_make_trials len)
  from stimuli members count unique origin hook show ?thesis
    by blast
qed

theorem trials_from_selectors_witness:
  "list_getitem [practice_1_of_12] (round_number (example_player 1) - 1) = Inr practice_1_of_12
   \<and> build_stimuli STIMULI practice_1_of_12 = Inr (candidate_tuples STIMULI practice_1_of_12)
   \<and> (0::nat) < length (candidate_tuples STIMULI practice_1_of_12)
   \<and> fst (shuffle [0..<12] example_rng) ! 2 = 0
   \<and> (\<exists>!i. i < 12 \<and> fst (shuffle [0..<12] example_rng) ! i = 0)
   \<and> make_trials (example_player 1)
        (fst (shuffle (candidate_tuples STIMULI practice_1_of_12) example_rng)) ! 2
       = new_trial (example_player 1) (2, candidate_tuples STIMULI practice_1_of_12 ! 0)
   \<and> (\<exists>ts g'. player_trials STIMULI [practice_1_of_12] (example_player 1) example_rng = Inr (ts, g')
        \<and> ts = make_trials (example_player 1)
                 (fst (shuffle (candidate_tuples STIMULI practice_1_of_12) example_rng)))"
proof -
  have len: "length (candidate_tuples STIMULI practice_1_of_12) = 12"
    by (simp add: practice_candidates)
  from trials_from_selectors [OF practice_lookup practice_stimuli, of example_rng]
  have u: "\<forall>k<12. \<exists>!i. i < 12 \<and> fst (shuffle [0..<12] example_rng) ! i = k"
    and o: "\<forall>i<12. make_trials (example_player 1)
                (fst (shuffle (candidate_tuples STIMULI practice_1_of_12) example_rng)) ! i
              = new_trial (example_player 1)
                  (i, candidate_tuples STIMULI practice_1_of_12 ! (fst (shuffle [0..<12] example_rng) ! i))"
    unfolding len by blast+
  from u have "\<exists>!i. i < 12 \<and> fst (shuffle [0..<12] example_rng) ! i = 0"
    by simp
  moreover from o have "make_trials (example_player 1)
        (fst (shuffle (candidate_tuples STIMULI practice_1_of_12) example_rng)) ! 2
       = new_trial (example_player 1) (2, candidate_tuples STIMULI practice_1_of_12 ! 0)"
    by (simp add: shuffle_12)
  ultimately show ?thesis
    using practice_lookup practice_stimuli practice_trials len
    by (simp add: shuffle_12)
qed

section \<open>The export\<close>

lemma sanitized_fields_export:
  "sanitized_fields san t fields_to_export =
     Inr (map san (trial_values t))"
  by (simp add: fields_to_export_def getattr_def trial_values_def)

lemma getattr_fields_to_export:
  "map (getattr t) fields_to_export = map Inr (trial_values t)"
  by (simp add: fields_to_export_def getattr_def trial_values_def)

lemma export_rows_eq:
  "export_rows san fields_to_export ts =
     Inr (map (\<lambda>t. [PyStr (session_code (player t)), PyStr (participant_code (player t))]
                    @ map san (trial_values t)) ts)"
  by (induction ts) (simp_all add: sanitized_fields_export)

lemma custom_export_eq:
  "custom_export san players objects =
     (Inr (header_row
           # map (\<lambda>t. [PyStr (session_code (player t)), PyStr (participant_code (player t))]
                    @ map san (trial_values t)) objects),
      objects)"
  unfolding custom_export_def export_rows_eq
  by (simp add: header_row_def fields_to_export_def)

lemma normalize_line_endings_plain:
  "CHR 0x0D \<notin> set s \<Longrightarrow> normalize_line_endings s = s"
  by (induction s rule: normalize_line_endings.induct) auto

lemma sanitize_plain: "plain_text s \<Longrightarrow> sanitize_for_csv (PyStr s) = PyStr s"
  by (cases s) (simp_all add: plain_text_def normalize_line_endings_plain escape_formula_def)


section \<open>Properties of the export\<close>

text \<open>
  C6. The first row the export yields is the header of ten column names, before any row
  of data; one row of data follows for each stored trial.
\<close>

theorem export_header_first:
  "\<exists>rows. fst (custom_export san players objects) =
       Inr ([PyStr ''session'', PyStr ''participant_code'', PyStr ''block'', PyStr ''trial'',
             PyStr ''stimulus'', PyStr ''stimulus_class'', PyStr ''stimulus_level'',
             PyStr ''response_key'', PyStr ''response_correct'', PyStr ''response_time_ms'']
            # rows)
     \<and> length rows = length objects"
  by (simp add: custom_export_eq header_row_def)

text \<open>
  C8. The export reads the stored trials and leaves them as they are, and its rows are a
  function of them: a second run on the trials the first run left yields the same result.
\<close>

theorem export_read_only:
  "snd (custom_export san players objects) = objects
   \<and> custom_export san players (snd (custom_export san players objects))
       = custom_export san players objects"
  by (simp add: custom_export_eq)

text \<open>
  C5, as the claim states it, has every value of a row passed through
  \<^verbatim>\<open>sanitize_for_csv\<close>. The session code and the participant code are put into the row as
  they are: a session code \<open>=1+1\<close> stands in the row unescaped, although the sanitizer
  changes it.
\<close>

theorem export_codes_not_sanitized:
  "fst (custom_export sanitize_for_csv [] [(answered_trial 1)\<lparr>player := formula_player\<rparr>]) =
     Inr [header_row,
          [PyStr ''=1+1'', PyStr ''q7w1e5rt'', PyInt 2, PyInt 1,
           PyStr (''alegr'' @ [CHR 0xED] @ ''a''), PyStr ''atributos'', PyStr ''positivas'',
           PyStr ''E'', PyBool True, PyInt 812]]
   \<and> sanitize_for_csv (PyStr ''=1+1'') = PyStr (CHR 0x27 # ''=1+1'')
   \<and> sanitize_for_csv (PyStr ''=1+1'') \<noteq> PyStr ''=1+1''"
  by (simp add: custom_export_eq trial_values_def answered_trial_def formula_player_def
                field_value_def escape_formula_def formula_leading_def)

text \<open>
  C5, amended. Every row of data is the session code and the participant code of the
  trial's player, both as stored, followed by the eight data fields of the trial in the
  order of \<^verbatim>\<open>fields_to_export\<close>, each of the eight passed through the sanitizer. The
  sanitizer of the specification leaves plain text, and every value that is not a string,
  unchanged.
\<close>

theorem export_rows_sanitized:
  "fst (custom_export san players objects) =
     Inr (header_row
          # map (\<lambda>t. [PyStr (session_code (player t)), PyStr (participant_code (player t))]
                   @ map san (trial_values t)) objects)
   \<and> map (getattr t) fields_to_export = map Inr (trial_values t)
   \<and> (plain_text s \<longrightarrow> sanitize_for_csv (PyStr s) = PyStr s)
   \<and> sanitize_for_csv PyNone = PyNone
   \<and> sanitize_for_csv (PyBool b) = PyBool b
   \<and> sanitize_for_csv (PyInt i) = PyInt i"
  using sanitize_plain [of s] by (simp add: custom_export_eq getattr_fields_to_export)

theorem export_rows_sanitized_witness:
  "plain_text (''alegr'' @ [CHR 0xED] @ ''a'')
   \<and> sanitize_for_csv (PyStr (''alegr'' @ [CHR 0xED] @ ''a'')) = PyStr (''alegr'' @ [CHR 0xED] @ ''a'')
   \<and> fst (custom_export sanitize_for_csv [] [answered_trial 1, answered_trial 2]) =
       Inr [header_row,
            [PyStr ''k3x9p2aa'', PyStr ''q7w1e5rt'', PyInt 2, PyInt 1,
             PyStr (''alegr'' @ [CHR 0xED] @ ''a''), PyStr ''atributos'', PyStr ''positivas'',
             PyStr ''E'', PyBool True, PyInt 812],
            [PyStr ''k3x9p2aa'', PyStr ''q7w1e5rt'', PyInt 2, PyInt 2,
             PyStr (''alegr'' @ [CHR 0xED] @ ''a''), PyStr ''atributos'', PyStr ''positivas'',
             PyStr ''E'', PyBool True, PyInt 812]]"
proof -
  have p: "plain_text (''alegr'' @ [CHR 0xED] @ ''a'')"
    by (simp add: plain_text_def formula_leading_def)
  from export_rows_sanitized [of sanitize_for_csv "[]" "[answered_trial 1, answered_trial 2]"
      "answered_trial 1" "''alegr'' @ [CHR 0xED] @ ''a''"] p
  show ?thesis
    by (simp add: trial_values_def answered_trial_def example_player_def field_value_def
                  escape_formula_def formula_leading_def)
qed

end
